theory Spec2Isabelle
  imports Complex_Main "HOL-Library.Char_ord" "HOL-Library.List_Lexorder"
begin

section \<open>Python values\<close>

text \<open>
  The router and the memory store pass dictionaries around. A dictionary is an association
  list with distinct keys in insertion order; its values are Python objects. Floats only
  ever hold the constants 0.0, 0.6, 0.8, 1.0 and quotients of two small lengths that are
  compared with each other or with 0.3, so they are modelled as rationals: on these values
  the comparison of the doubles and of the rationals agree. Text is a list of 8-bit
  characters; the character functions below (lower-casing, white space, digits, word
  characters) are Python's on ASCII text, and a character above 127 is taken to be an
  ordinary symbol without case.
\<close>

datatype pyval =
    PNone
  | PStr string
  | PInt int
  | PFloat rat
  | PBool bool
  | PTuple "pyval list"
  | PList "pyval list"
  | PDict "(string \<times> pyval) list"

type_synonym pydict = "(string \<times> pyval) list"

datatype py_error = ZeroDivisionError | AttributeError | TypeError | ValueError | IndexError
  | BackendError

text \<open>\<^verbatim>\<open>d[k] = v\<close>: an existing key keeps its place, a new key goes to the end.\<close>

fun dict_set :: "('k \<times> 'v) list \<Rightarrow> 'k \<Rightarrow> 'v \<Rightarrow> ('k \<times> 'v) list" where
  "dict_set [] k v = [(k, v)]"
| "dict_set ((k', v') # d) k v = (if k' = k then (k, v) # d else (k', v') # dict_set d k v)"

text \<open>\<^verbatim>\<open>d.update(e)\<close>\<close>

fun dict_update :: "('k \<times> 'v) list \<Rightarrow> ('k \<times> 'v) list \<Rightarrow> ('k \<times> 'v) list" where
  "dict_update d [] = d"
| "dict_update d ((k, v) # e) = dict_update (dict_set d k v) e"

text \<open>\<^verbatim>\<open>d.get(k)\<close> is \<open>map_of d k\<close>, with \<open>None\<close> for an absent key.\<close>

definition dict_get :: "('k \<times> 'v) list \<Rightarrow> 'k \<Rightarrow> 'v option" where
  "dict_get d k = map_of d k"

section \<open>Characters and strings\<close>

text \<open>Characters are ordered by their code.\<close>

definition in_range :: "char \<Rightarrow> char \<Rightarrow> char \<Rightarrow> bool" where
  "in_range lo hi c = (if lo \<le> c then c \<le> hi else False)"

definition lower_char :: "char \<Rightarrow> char" where
  "lower_char c =
     (if in_range CHR ''A'' CHR ''Z'' c then char_of (of_char c + (32 :: nat)) else c)"

definition upper_char :: "char \<Rightarrow> char" where
  "upper_char c =
     (if in_range CHR ''a'' CHR ''z'' c then char_of (of_char c - (32 :: nat)) else c)"

text \<open>\<^verbatim>\<open>str.isspace\<close> on ASCII: tab, line feed, vertical tab, form feed, carriage return
  (0x09 to 0x0D), the four separators 0x1C to 0x1F and the space (0x20).\<close>

definition is_space :: "char \<Rightarrow> bool" where
  "is_space c = (if in_range (CHR 0x09) (CHR 0x0D) c then True
                 else in_range (CHR 0x1C) (CHR 0x20) c)"

definition is_digit :: "char \<Rightarrow> bool" where
  "is_digit c = in_range CHR ''0'' CHR ''9'' c"

definition is_word :: "char \<Rightarrow> bool" where
  "is_word c = (if in_range CHR ''a'' CHR ''z'' c then True
                else if in_range CHR ''A'' CHR ''Z'' c then True
                else if in_range CHR ''0'' CHR ''9'' c then True
                else c = CHR ''_'')"

text \<open>\<^verbatim>\<open>s.lower()\<close> and \<^verbatim>\<open>s.strip()\<close>\<close>

definition lower :: "string \<Rightarrow> string" where
  "lower s = map lower_char s"

definition strip :: "string \<Rightarrow> string" where
  "strip s = rev (dropWhile is_space (rev (dropWhile is_space s)))"

text \<open>\<^verbatim>\<open>k in s\<close> for strings: \<open>k\<close> occurs as a contiguous run of \<open>s\<close>.\<close>

fun is_prefix :: "string \<Rightarrow> string \<Rightarrow> bool" where
  "is_prefix [] s = True"
| "is_prefix (a # w) [] = False"
| "is_prefix (a # w) (c # s) = (if a = c then is_prefix w s else False)"

fun contains :: "string \<Rightarrow> string \<Rightarrow> bool" where
  "contains [] k = (k = [])"
| "contains (c # s) k = (if is_prefix k (c # s) then True else contains s k)"

text \<open>\<^verbatim>\<open>int(s)\<close> on the strings a \<^verbatim>\<open>\d+\<close> group captures: a non-empty run of decimal digits
  is its value; anything else is reported as the \<^verbatim>\<open>ValueError\<close> of the source's
  \<^verbatim>\<open>except\<close> clause.\<close>

definition digit_val :: "char \<Rightarrow> int" where
  "digit_val c = int (of_char c) - 48"

definition py_int :: "string \<Rightarrow> int option" where
  "py_int s = (if s \<noteq> [] \<and> list_all is_digit s
               then Some (foldl (\<lambda>a c. 10 * a + digit_val c) 0 s) else None)"

section \<open>Regular expressions\<close>

text \<open>
  The patterns of the catalog use literals, character classes under a greedy bounded or
  unbounded repetition, concatenation, ordered alternation, the greedy optional group,
  capture groups and the word boundary. The matcher is the backtracking matcher of
  Python's \<^verbatim>\<open>re\<close> on that fragment, in continuation-passing style: the continuation is
  the rest of the pattern, a failure of the continuation makes the matcher try its next
  choice, and every pattern is compiled with \<^verbatim>\<open>re.IGNORECASE\<close>.
\<close>

datatype cclass =
    Dot                           \<comment> \<open>\<^verbatim>\<open>.\<close>: any character but the line feed\<close>
  | Space                         \<comment> \<open>\<^verbatim>\<open>\s\<close>\<close>
  | NotSpace                      \<comment> \<open>\<^verbatim>\<open>[^\s]\<close>\<close>
  | Digit                         \<comment> \<open>\<^verbatim>\<open>\d\<close>\<close>
  | Chars "(char \<times> char) list"    \<comment> \<open>\<^verbatim>\<open>[a-z.]\<close>: ranges, a single character as \<open>(c, c)\<close>\<close>

datatype regex =
    Lit string                    \<comment> \<open>a literal run of characters\<close>
  | Rep cclass nat "nat option"   \<comment> \<open>a class repeated greedily, \<^verbatim>\<open>{lo,hi}\<close>, no upper bound for \<open>None\<close>\<close>
  | Seq regex regex
  | Alt regex regex               \<comment> \<open>\<^verbatim>\<open>a|b\<close>, the left branch first\<close>
  | Opt regex                     \<comment> \<open>\<^verbatim>\<open>(?:a)?\<close>\<close>
  | Grp nat regex                 \<comment> \<open>capture group; group \<open>i\<close> here is Python's group \<open>i + 1\<close>\<close>
  | WordB                         \<comment> \<open>\<^verbatim>\<open>\b\<close>\<close>

fun in_ranges :: "(char \<times> char) list \<Rightarrow> char \<Rightarrow> bool" where
  "in_ranges [] c = False"
| "in_ranges ((lo, hi) # rs) c = (if in_range lo hi c then True else in_ranges rs c)"

fun cls :: "cclass \<Rightarrow> char \<Rightarrow> bool" where
  "cls Dot c = (c \<noteq> CHR 0x0A)"
| "cls Space c = is_space c"
| "cls NotSpace c = (\<not> is_space c)"
| "cls Digit c = is_digit c"
| "cls (Chars rs) c =
     (if in_ranges rs c then True
      else if in_ranges rs (lower_char c) then True
      else in_ranges rs (upper_char c))"

text \<open>The length of the longest run of class characters at the head of the text, at most \<open>hi\<close>.\<close>

fun run_len :: "cclass \<Rightarrow> nat option \<Rightarrow> string \<Rightarrow> nat" where
  "run_len c hi [] = 0"
| "run_len c hi (x # s) =
     (if hi = Some 0 \<or> \<not> cls c x then 0
      else Suc (run_len c (map_option (\<lambda>h. h - 1) hi) s))"

text \<open>Greedy repetition: the longest run first, then one character fewer, down to \<open>lo\<close>.\<close>

fun try_down :: "(nat \<Rightarrow> 'a option) \<Rightarrow> nat \<Rightarrow> nat \<Rightarrow> 'a option" where
  "try_down f lo 0 = (if lo = 0 then f 0 else None)"
| "try_down f lo (Suc n) =
     (if Suc n < lo then None
      else (case f (Suc n) of Some r \<Rightarrow> Some r | None \<Rightarrow> try_down f lo n))"

text \<open>A literal matches when it is a prefix of the text, letter case ignored.\<close>

fun lit_match :: "string \<Rightarrow> string \<Rightarrow> bool" where
  "lit_match [] s = True"
| "lit_match (a # w) [] = False"
| "lit_match (a # w) (c # s) = (if lower_char a = lower_char c then lit_match w s else False)"

text \<open>
  The state of a match attempt: the character before the current position (for the word
  boundary), the text still to read, and what each group has captured so far.
\<close>

type_synonym mstate = "char option \<times> string \<times> string option list"

fun advance :: "nat \<Rightarrow> mstate \<Rightarrow> mstate" where
  "advance n (p, s, g) = ((if n = 0 \<or> length s < n then p else Some (s ! (n - 1))), drop n s, g)"

definition at_boundary :: "char option \<Rightarrow> string \<Rightarrow> bool" where
  "at_boundary p s =
     ((case p of None \<Rightarrow> False | Some c \<Rightarrow> is_word c)
        \<noteq> (case s of [] \<Rightarrow> False | c # _ \<Rightarrow> is_word c))"

fun rmatch :: "regex \<Rightarrow> (mstate \<Rightarrow> mstate option) \<Rightarrow> mstate \<Rightarrow> mstate option" where
  "rmatch (Lit w) k (p, s, g) =
     (if lit_match w s then k (advance (length w) (p, s, g)) else None)"
| "rmatch (Rep c lo hi) k (p, s, g) =
     try_down (\<lambda>n. k (advance n (p, s, g))) lo (run_len c hi s)"
| "rmatch (Seq a b) k st = rmatch a (\<lambda>st'. rmatch b k st') st"
| "rmatch (Alt a b) k st = (case rmatch a k st of Some r \<Rightarrow> Some r | None \<Rightarrow> rmatch b k st)"
| "rmatch (Opt a) k st = (case rmatch a k st of Some r \<Rightarrow> Some r | None \<Rightarrow> k st)"
| "rmatch (Grp i a) k (p, s, g) =
     rmatch a (\<lambda>(p', s', g'). k (p', s', g'[i := Some (take (length s - length s') s)])) (p, s, g)"
| "rmatch WordB k (p, s, g) = (if at_boundary p s then k (p, s, g) else None)"

fun ngroups :: "regex \<Rightarrow> nat" where
  "ngroups (Lit w) = 0"
| "ngroups (Rep c lo hi) = 0"
| "ngroups (Seq a b) = max (ngroups a) (ngroups b)"
| "ngroups (Alt a b) = max (ngroups a) (ngroups b)"
| "ngroups (Opt a) = ngroups a"
| "ngroups (Grp i a) = max (Suc i) (ngroups a)"
| "ngroups WordB = 0"

text \<open>A match object: where it starts, \<^verbatim>\<open>group(0)\<close>, and \<^verbatim>\<open>groups()\<close> with \<open>None\<close> for a
  group that took no part.\<close>

record match_obj =
  m_start :: nat
  m_group0 :: string
  m_groups :: "string option list"

text \<open>
  One attempt anchored at the head of \<open>s\<close>. With \<open>must_advance\<close> an empty match is refused,
  as the scanner of \<^verbatim>\<open>findall\<close> asks right after an empty match.
\<close>

definition match_here :: "regex \<Rightarrow> bool \<Rightarrow> char option \<Rightarrow> string \<Rightarrow> (string \<times> string option list) option" where
  "match_here r must_advance p s =
     (case rmatch r (\<lambda>(p', s', g'). if must_advance \<and> length s' = length s then None
                                      else Some (p', s', g'))
             (p, s, replicate (ngroups r) None) of
        None \<Rightarrow> None
      | Some (p', s', g') \<Rightarrow> Some (take (length s - length s') s, g'))"

text \<open>\<^verbatim>\<open>re.search\<close>: the first position, from the left, where an attempt succeeds.\<close>

fun search_from :: "regex \<Rightarrow> char option \<Rightarrow> string \<Rightarrow> nat \<Rightarrow> match_obj option" where
  "search_from r p [] off =
     (case match_here r False p [] of
        None \<Rightarrow> None
      | Some (m, g) \<Rightarrow> Some \<lparr>m_start = off, m_group0 = m, m_groups = g\<rparr>)"
| "search_from r p (c # s) off =
     (case match_here r False p (c # s) of
        None \<Rightarrow> search_from r (Some c) s (Suc off)
      | Some (m, g) \<Rightarrow> Some \<lparr>m_start = off, m_group0 = m, m_groups = g\<rparr>)"

definition re_search :: "regex \<Rightarrow> string \<Rightarrow> match_obj option" where
  "re_search r text = search_from r None text 0"

text \<open>
  \<^verbatim>\<open>re.findall\<close>: what one match contributes is the whole match for a pattern without
  groups, the group for a pattern with one, and the tuple of the groups otherwise, a group
  that took no part counting as the empty string.
\<close>

definition findall_item :: "regex \<Rightarrow> string \<times> string option list \<Rightarrow> pyval" where
  "findall_item r mg =
     (let gs = map (\<lambda>g. case g of None \<Rightarrow> PStr [] | Some t \<Rightarrow> PStr t) (snd mg)
      in if ngroups r = 0 then PStr (fst mg)
         else if ngroups r = 1 then hd gs
         else PTuple gs)"

text \<open>
  The scan goes through the text one position at a time. \<open>skip\<close> counts the characters of
  the last match still to step over. After an empty match the same position is tried once
  more for a non-empty match, and the scan moves on by one character.
\<close>

fun findall_scan :: "regex \<Rightarrow> char option \<Rightarrow> string \<Rightarrow> nat \<Rightarrow> pyval list" where
  "findall_scan r p [] skip =
     (if 0 < skip then []
      else (case match_here r False p [] of None \<Rightarrow> [] | Some mg \<Rightarrow> [findall_item r mg]))"
| "findall_scan r p (c # s) skip =
     (if 0 < skip then findall_scan r (Some c) s (skip - 1)
      else (case match_here r False p (c # s) of
              None \<Rightarrow> findall_scan r (Some c) s 0
            | Some mg \<Rightarrow>
                if fst mg \<noteq> [] then findall_item r mg # findall_scan r (Some c) s (length (fst mg) - 1)
                else (case match_here r True p (c # s) of
                        None \<Rightarrow> findall_item r mg # findall_scan r (Some c) s 0
                      | Some mg' \<Rightarrow>
                          findall_item r mg # findall_item r mg'
                            # findall_scan r (Some c) s (length (fst mg') - 1))))"

definition re_findall :: "regex \<Rightarrow> string \<Rightarrow> pyval list" where
  "re_findall r text = findall_scan r None text 0"

text \<open>Writing patterns: a sequence, an alternation, one or more, zero or more, an optional
  character of a set, an alternation of words.\<close>

definition cat :: "regex list \<Rightarrow> regex" where
  "cat rs = foldr Seq rs (Lit [])"

fun alts :: "regex list \<Rightarrow> regex" where
  "alts [] = Lit []"
| "alts [r] = r"
| "alts (r # rs) = Alt r (alts rs)"

definition many1 :: "cclass \<Rightarrow> regex" where
  "many1 c = Rep c 1 None"

definition many0 :: "cclass \<Rightarrow> regex" where
  "many0 c = Rep c 0 None"

definition words :: "string list \<Rightarrow> regex" where
  "words ws = alts (map Lit ws)"

definition opt_char :: "string \<Rightarrow> regex" where
  "opt_char cs = Rep (Chars (map (\<lambda>c. (c, c)) cs)) 0 (Some 1)"


section \<open>The pattern catalog\<close>

text \<open>\<^verbatim>\<open>self.intent_patterns\<close>, in the order of the dictionary. Each pattern is followed by
  its source text.\<close>

definition sp1 :: regex where "sp1 = many1 Space"
definition sp0 :: regex where "sp0 = many0 Space"
definition any0 :: regex where "any0 = many0 Dot"
definition any1 :: regex where "any1 = many1 Dot"
definition num :: regex where "num = many1 Digit"

definition two_numbers :: "regex list" where
  \<comment> \<open>\<^verbatim>\<open>(\d+)\s*[,.]?\s*(\d+)\<close>\<close>
  \<open>two_numbers = [Grp 0 num, sp0, opt_char '',.'', sp0, Grp 1 num]\<close>

definition intent_patterns :: "(string \<times> regex list) list" where
  \<open>intent_patterns = [
    (''screen_read'', [
      \<comment> \<open>\<^verbatim>\<open>(what|show|tell).*(on|in).*(screen|display)\<close>\<close>
      cat [Grp 0 (words [''what'', ''show'', ''tell'']), any0, Grp 1 (words [''on'', ''in'']), any0,
           Grp 2 (words [''screen'', ''display''])],
      \<comment> \<open>\<^verbatim>\<open>(read|scan).*(screen|display)\<close>\<close>
      cat [Grp 0 (words [''read'', ''scan'']), any0, Grp 1 (words [''screen'', ''display''])],
      \<comment> \<open>\<^verbatim>\<open>(what).*(see|visible)\<close>\<close>
      cat [Grp 0 (Lit ''what''), any0, Grp 1 (words [''see'', ''visible''])],
      \<comment> \<open>\<^verbatim>\<open>(screen|display).*(content|text|information)\<close>\<close>
      cat [Grp 0 (words [''screen'', ''display'']), any0,
           Grp 1 (words [''content'', ''text'', ''information''])]]),
    (''webcam_analyze'', [
      \<comment> \<open>\<^verbatim>\<open>(what|show|tell).*(see|visible).*(camera|webcam)\<close>\<close>
      cat [Grp 0 (words [''what'', ''show'', ''tell'']), any0, Grp 1 (words [''see'', ''visible'']), any0,
           Grp 2 (words [''camera'', ''webcam''])],
      \<comment> \<open>\<^verbatim>\<open>(analyze|check).*(camera|webcam|video)\<close>\<close>
      cat [Grp 0 (words [''analyze'', ''check'']), any0, Grp 1 (words [''camera'', ''webcam'', ''video''])],
      \<comment> \<open>\<^verbatim>\<open>(who|what).*(front|back).*(camera)\<close>\<close>
      cat [Grp 0 (words [''who'', ''what'']), any0, Grp 1 (words [''front'', ''back'']), any0,
           Grp 2 (Lit ''camera'')],
      \<comment> \<open>\<^verbatim>\<open>(camera|webcam).*(scene|view)\<close>\<close>
      cat [Grp 0 (words [''camera'', ''webcam'']), any0, Grp 1 (words [''scene'', ''view''])]]),
    (''type_text'', [
      \<comment> \<open>\<^verbatim>\<open>type\s*[:.]?\s*(.+)\<close>\<close>
      cat [Lit ''type'', sp0, opt_char '':.'', sp0, Grp 0 any1],
      \<comment> \<open>\<^verbatim>\<open>write\s*[:.]?\s*(.+)\<close>\<close>
      cat [Lit ''write'', sp0, opt_char '':.'', sp0, Grp 0 any1],
      \<comment> \<open>\<^verbatim>\<open>enter\s*[:.]?\s*(.+)\<close>\<close>
      cat [Lit ''enter'', sp0, opt_char '':.'', sp0, Grp 0 any1],
      \<comment> \<open>\<^verbatim>\<open>input\s*[:.]?\s*(.+)\<close>\<close>
      cat [Lit ''input'', sp0, opt_char '':.'', sp0, Grp 0 any1]]),
    (''click'', [
      \<comment> \<open>\<^verbatim>\<open>click\s+(?:at\s+)?(\d+)\s*[,.]?\s*(\d+)\<close>\<close>
      cat ([Lit ''click'', sp1, Opt (cat [Lit ''at'', sp1])] @ two_numbers),
      \<comment> \<open>\<^verbatim>\<open>click\s+(?:position\s+)?(\d+)\s*[,.]?\s*(\d+)\<close>\<close>
      cat ([Lit ''click'', sp1, Opt (cat [Lit ''position'', sp1])] @ two_numbers),
      \<comment> \<open>\<^verbatim>\<open>click\s+(?:coordinates\s+)?(\d+)\s*[,.]?\s*(\d+)\<close>\<close>
      cat ([Lit ''click'', sp1, Opt (cat [Lit ''coordinates'', sp1])] @ two_numbers)]),
    (''move_mouse'', [
      \<comment> \<open>\<^verbatim>\<open>move\s+(?:mouse\s+)?(?:to\s+)?(\d+)\s*[,.]?\s*(\d+)\<close>\<close>
      cat ([Lit ''move'', sp1, Opt (cat [Lit ''mouse'', sp1]), Opt (cat [Lit ''to'', sp1])] @ two_numbers),
      \<comment> \<open>\<^verbatim>\<open>position\s+(?:mouse\s+)?(?:at\s+)?(\d+)\s*[,.]?\s*(\d+)\<close>\<close>
      cat ([Lit ''position'', sp1, Opt (cat [Lit ''mouse'', sp1]), Opt (cat [Lit ''at'', sp1])]
           @ two_numbers),
      \<comment> \<open>\<^verbatim>\<open>go\s+(?:to\s+)?(\d+)\s*[,.]?\s*(\d+)\<close>\<close>
      cat ([Lit ''go'', sp1, Opt (cat [Lit ''to'', sp1])] @ two_numbers)]),
    (''search_web'', [
      \<comment> \<open>\<^verbatim>\<open>(search|find|look\s+up).*(?:for\s+)?(.+)\<close>\<close>
      cat [Grp 0 (alts [Lit ''search'', Lit ''find'', cat [Lit ''look'', sp1, Lit ''up'']]), any0,
           Opt (cat [Lit ''for'', sp1]), Grp 1 any1],
      \<comment> \<open>\<^verbatim>\<open>(google|bing|search\s+engine).*(.+)\<close>\<close>
      cat [Grp 0 (alts [Lit ''google'', Lit ''bing'', cat [Lit ''search'', sp1, Lit ''engine'']]), any0,
           Grp 1 any1],
      \<comment> \<open>\<^verbatim>\<open>(web\s+search|internet\s+search).*(.+)\<close>\<close>
      cat [Grp 0 (alts [cat [Lit ''web'', sp1, Lit ''search''], cat [Lit ''internet'', sp1, Lit ''search'']]),
           any0, Grp 1 any1]]),
    (''open_app'', [
      \<comment> \<open>\<^verbatim>\<open>open\s+(.+)\<close>\<close>
      cat [Lit ''open'', sp1, Grp 0 any1],
      \<comment> \<open>\<^verbatim>\<open>launch\s+(.+)\<close>\<close>
      cat [Lit ''launch'', sp1, Grp 0 any1],
      \<comment> \<open>\<^verbatim>\<open>start\s+(.+)\<close>\<close>
      cat [Lit ''start'', sp1, Grp 0 any1],
      \<comment> \<open>\<^verbatim>\<open>run\s+(.+)\<close>\<close>
      cat [Lit ''run'', sp1, Grp 0 any1]]),
    (''file_operation'', [
      \<comment> \<open>\<^verbatim>\<open>(create|make|new)\s+(file|document|folder).*(.+)\<close>\<close>
      cat [Grp 0 (words [''create'', ''make'', ''new'']), sp1,
           Grp 1 (words [''file'', ''document'', ''folder'']), any0, Grp 2 any1],
      \<comment> \<open>\<^verbatim>\<open>(save|store)\s+(.+)\<close>\<close>
      cat [Grp 0 (words [''save'', ''store'']), sp1, Grp 1 any1],
      \<comment> \<open>\<^verbatim>\<open>(delete|remove)\s+(.+)\<close>\<close>
      cat [Grp 0 (words [''delete'', ''remove'']), sp1, Grp 1 any1],
      \<comment> \<open>\<^verbatim>\<open>(copy|duplicate)\s+(.+)\<close>\<close>
      cat [Grp 0 (words [''copy'', ''duplicate'']), sp1, Grp 1 any1]]),
    (''system_control'', [
      \<comment> \<open>\<^verbatim>\<open>(shutdown|turn\s+off|power\s+down)\<close>\<close>
      Grp 0 (alts [Lit ''shutdown'', cat [Lit ''turn'', sp1, Lit ''off''],
                   cat [Lit ''power'', sp1, Lit ''down'']]),
      \<comment> \<open>\<^verbatim>\<open>(restart|reboot)\<close>\<close>
      Grp 0 (words [''restart'', ''reboot'']),
      \<comment> \<open>\<^verbatim>\<open>(sleep|suspend)\<close>\<close>
      Grp 0 (words [''sleep'', ''suspend'']),
      \<comment> \<open>\<^verbatim>\<open>(volume|sound|mute|unmute)\<close>\<close>
      Grp 0 (words [''volume'', ''sound'', ''mute'', ''unmute'']),
      \<comment> \<open>\<^verbatim>\<open>(brightness|screen\s+brightness)\<close>\<close>
      Grp 0 (alts [Lit ''brightness'', cat [Lit ''screen'', sp1, Lit ''brightness'']])]),
    (''memory_query'', [
      \<comment> \<open>\<^verbatim>\<open>(remember|recall|what\s+did).*(we\s+talk|conversation)\<close>\<close>
      cat [Grp 0 (alts [Lit ''remember'', Lit ''recall'', cat [Lit ''what'', sp1, Lit ''did'']]), any0,
           Grp 1 (alts [cat [Lit ''we'', sp1, Lit ''talk''], Lit ''conversation''])],
      \<comment> \<open>\<^verbatim>\<open>(history|past|previous).*(conversation|talk)\<close>\<close>
      cat [Grp 0 (words [''history'', ''past'', ''previous'']), any0,
           Grp 1 (words [''conversation'', ''talk''])],
      \<comment> \<open>\<^verbatim>\<open>(memory|memories).*(search|find)\<close>\<close>
      cat [Grp 0 (words [''memory'', ''memories'']), any0, Grp 1 (words [''search'', ''find''])]]),
    (''preference_setting'', [
      \<comment> \<open>\<^verbatim>\<open>(set|change|update).*(preference|setting)\<close>\<close>
      cat [Grp 0 (words [''set'', ''change'', ''update'']), any0,
           Grp 1 (words [''preference'', ''setting''])],
      \<comment> \<open>\<^verbatim>\<open>(voice|speech|tts).*(rate|speed|volume)\<close>\<close>
      cat [Grp 0 (words [''voice'', ''speech'', ''tts'']), any0,
           Grp 1 (words [''rate'', ''speed'', ''volume''])],
      \<comment> \<open>\<^verbatim>\<open>(camera|webcam).*(resolution|quality)\<close>\<close>
      cat [Grp 0 (words [''camera'', ''webcam'']), any0, Grp 1 (words [''resolution'', ''quality''])]]),
    (''help_request'', [
      \<comment> \<open>\<^verbatim>\<open>(help|assist|support)\<close>\<close>
      Grp 0 (words [''help'', ''assist'', ''support'']),
      \<comment> \<open>\<^verbatim>\<open>(what\s+can\s+you\s+do|capabilities|features)\<close>\<close>
      Grp 0 (alts [cat [Lit ''what'', sp1, Lit ''can'', sp1, Lit ''you'', sp1, Lit ''do''],
                   Lit ''capabilities'', Lit ''features'']),
      \<comment> \<open>\<^verbatim>\<open>(how\s+to|instructions|guide)\<close>\<close>
      Grp 0 (alts [cat [Lit ''how'', sp1, Lit ''to''], Lit ''instructions'', Lit ''guide''])]),
    (''general_chat'', [
      \<comment> \<open>\<^verbatim>\<open>(hello|hi|hey|greetings)\<close>\<close>
      Grp 0 (words [''hello'', ''hi'', ''hey'', ''greetings'']),
      \<comment> \<open>\<^verbatim>\<open>(how\s+are\s+you|how\s+you\s+doing)\<close>\<close>
      Grp 0 (alts [cat [Lit ''how'', sp1, Lit ''are'', sp1, Lit ''you''],
                   cat [Lit ''how'', sp1, Lit ''you'', sp1, Lit ''doing'']]),
      \<comment> \<open>\<^verbatim>\<open>(thank\s+you|thanks|appreciate)\<close>\<close>
      Grp 0 (alts [cat [Lit ''thank'', sp1, Lit ''you''], Lit ''thanks'', Lit ''appreciate'']),
      \<comment> \<open>\<^verbatim>\<open>(goodbye|bye|see\s+you|later)\<close>\<close>
      Grp 0 (alts [Lit ''goodbye'', Lit ''bye'', cat [Lit ''see'', sp1, Lit ''you''], Lit ''later''])])]\<close>

text \<open>\<^verbatim>\<open>self.entity_patterns\<close>\<close>

definition entity_patterns :: "(string \<times> regex) list" where
  \<open>entity_patterns = [
    \<comment> \<open>\<^verbatim>\<open>(\d+)\s*[,.]?\s*(\d+)\<close>\<close>
    (''coordinates'', cat two_numbers),
    \<comment> \<open>\<^verbatim>\<open>https?://[^\s]+\<close>\<close>
    (''url'', cat [Lit ''http'', opt_char ''s'', Lit ''://'', many1 NotSpace]),
    \<comment> \<open>\<^verbatim>\<open>\b[A-Za-z0-9._%+-]+@[A-Za-z0-9.-]+\.[A-Z|a-z]{2,}\b\<close>\<close>
    (''email'', cat [WordB,
       many1 (Chars [(CHR ''A'', CHR ''Z''), (CHR ''a'', CHR ''z''), (CHR ''0'', CHR ''9''),
                     (CHR ''.'', CHR ''.''), (CHR ''_'', CHR ''_''), (CHR ''%'', CHR ''%''),
                     (CHR ''+'', CHR ''+''), (CHR ''-'', CHR ''-'')]),
       Lit ''@'',
       many1 (Chars [(CHR ''A'', CHR ''Z''), (CHR ''a'', CHR ''z''), (CHR ''0'', CHR ''9''),
                     (CHR ''.'', CHR ''.''), (CHR ''-'', CHR ''-'')]),
       Lit ''.'',
       Rep (Chars [(CHR ''A'', CHR ''Z''), (CHR ''|'', CHR ''|''), (CHR ''a'', CHR ''z'')]) 2 None,
       WordB]),
    \<comment> \<open>\<^verbatim>\<open>\b\d{3}[-.]?\d{3}[-.]?\d{4}\b\<close>\<close>
    (''phone'', cat [WordB, Rep Digit 3 (Some 3), opt_char ''-.'', Rep Digit 3 (Some 3),
                     opt_char ''-.'', Rep Digit 4 (Some 4), WordB]),
    \<comment> \<open>\<^verbatim>\<open>\b\d{1,2}:\d{2}\s*(?:AM|PM)?\b\<close>\<close>
    (''time'', cat [WordB, Rep Digit 1 (Some 2), Lit '':'', Rep Digit 2 (Some 2), sp0,
                    Opt (words [''AM'', ''PM'']), WordB]),
    \<comment> \<open>\<^verbatim>\<open>\b\d{1,2}[/-]\d{1,2}[/-]\d{2,4}\b\<close>\<close>
    (''date'', cat [WordB, Rep Digit 1 (Some 2),
                    Rep (Chars [(CHR ''/'', CHR ''/''), (CHR ''-'', CHR ''-'')]) 1 (Some 1),
                    Rep Digit 1 (Some 2),
                    Rep (Chars [(CHR ''/'', CHR ''/''), (CHR ''-'', CHR ''-'')]) 1 (Some 1),
                    Rep Digit 2 (Some 4), WordB])]\<close>

text \<open>\<^verbatim>\<open>self.confidence_weights\<close>\<close>

definition confidence_weights :: "(string \<times> rat) list" where
  "confidence_weights = [(''exact_match'', 1), (''pattern_match'', 4 / 5),
                         (''keyword_match'', 3 / 5), (''partial_match'', 2 / 5)]"

definition weight :: "string \<Rightarrow> rat" where
  "weight k = (case map_of confidence_weights k of Some w \<Rightarrow> w | None \<Rightarrow> 0)"


section \<open>The intent router\<close>

text \<open>\<^verbatim>\<open>_check_exact_matches\<close>: the table is scanned in order and the first phrase equal to
  the text returns its dictionary.\<close>

definition exact_phrases :: "(string \<times> pydict) list" where
  "exact_phrases = [
    (''what'' @ [CHR 0x27] @ ''s on my screen'', [(''type'', PStr ''screen_read'')]),
    (''read screen'', [(''type'', PStr ''screen_read'')]),
    (''take screenshot'', [(''type'', PStr ''screen_read'')]),
    (''what do you see'', [(''type'', PStr ''webcam_analyze'')]),
    (''camera view'', [(''type'', PStr ''webcam_analyze'')]),
    (''help'', [(''type'', PStr ''help_request'')]),
    (''what can you do'', [(''type'', PStr ''help_request'')]),
    (''goodbye'', [(''type'', PStr ''general_chat''), (''subtype'', PStr ''farewell'')]),
    (''thank you'', [(''type'', PStr ''general_chat''), (''subtype'', PStr ''gratitude'')])]"

fun first_equal :: "string \<Rightarrow> (string \<times> pydict) list \<Rightarrow> pydict option" where
  "first_equal text [] = None"
| "first_equal text ((phrase, intent) # rest) =
     (if text = phrase then Some intent else first_equal text rest)"

definition check_exact_matches :: "string \<Rightarrow> pydict option" where
  "check_exact_matches text = first_equal text exact_phrases"

text \<open>
  \<^verbatim>\<open>_check_pattern_matches\<close>. The loop state is \<^verbatim>\<open>best_match\<close> (its three entries \<^verbatim>\<open>type\<close>,
  \<^verbatim>\<open>match\<close>, \<^verbatim>\<open>groups\<close>) and \<^verbatim>\<open>best_confidence\<close>. The division raises on an empty text.
\<close>

type_synonym best = "(string \<times> string \<times> string option list) option \<times> rat"

fun patterns_loop :: "string \<Rightarrow> string \<Rightarrow> regex list \<Rightarrow> best \<Rightarrow> py_error + best" where
  "patterns_loop text intent_type [] st = Inr st"
| "patterns_loop text intent_type (pattern # rest) (best_match, best_confidence) =
     (case re_search pattern text of
        None \<Rightarrow> patterns_loop text intent_type rest (best_match, best_confidence)
      | Some m \<Rightarrow>
          if length text = 0 then Inl ZeroDivisionError
          else let confidence = of_nat (length (m_group0 m)) / of_nat (length text)
               in if confidence > best_confidence
                  then patterns_loop text intent_type rest
                         (Some (intent_type, m_group0 m, m_groups m), confidence)
                  else patterns_loop text intent_type rest (best_match, best_confidence))"

fun intents_loop :: "string \<Rightarrow> (string \<times> regex list) list \<Rightarrow> best \<Rightarrow> py_error + best" where
  "intents_loop text [] st = Inr st"
| "intents_loop text ((intent_type, patterns) # rest) st =
     (case patterns_loop text intent_type patterns st of
        Inl e \<Rightarrow> Inl e
      | Inr st' \<Rightarrow> intents_loop text rest st')"

text \<open>\<^verbatim>\<open>g.strip()\<close> on a group: a group that took no part is \<^verbatim>\<open>None\<close>, which has no
  \<^verbatim>\<open>strip\<close>.\<close>

definition group_strip :: "string option \<Rightarrow> py_error + string" where
  "group_strip g = (case g of None \<Rightarrow> Inl AttributeError | Some t \<Rightarrow> Inr (strip t))"

text \<open>The \<^verbatim>\<open>try\<close> block of \<^verbatim>\<open>click\<close> and \<^verbatim>\<open>move_mouse\<close>: \<^verbatim>\<open>x\<close> is stored before \<^verbatim>\<open>y\<close> is
  converted, a \<^verbatim>\<open>ValueError\<close> is swallowed, and \<^verbatim>\<open>int(None)\<close> is a \<^verbatim>\<open>TypeError\<close>, which is
  not caught.\<close>

definition xy_data :: "string option list \<Rightarrow> py_error + pydict" where
  "xy_data groups =
     (if length groups \<ge> 2 then
        (case groups ! 0 of
           None \<Rightarrow> Inl TypeError
         | Some a \<Rightarrow>
            (case py_int a of
               None \<Rightarrow> Inr []
             | Some x \<Rightarrow>
                (case groups ! 1 of
                   None \<Rightarrow> Inl TypeError
                 | Some b \<Rightarrow>
                    (case py_int b of
                       None \<Rightarrow> Inr [(''x'', PInt x)]
                     | Some y \<Rightarrow> Inr [(''x'', PInt x), (''y'', PInt y)]))))
      else Inr [])"

definition extract_intent_data :: "string \<Rightarrow> string option list \<Rightarrow> string \<Rightarrow> py_error + pydict" where
  "extract_intent_data intent_type groups text =
     (if intent_type = ''type_text'' then
        (if groups \<noteq> [] then
           (case group_strip (groups ! 0) of Inl e \<Rightarrow> Inl e | Inr t \<Rightarrow> Inr [(''text'', PStr t)])
         else Inr [])
      else if intent_type = ''click'' then xy_data groups
      else if intent_type = ''move_mouse'' then xy_data groups
      else if intent_type = ''search_web'' then
        (if groups \<noteq> [] then
           (case group_strip (last groups) of Inl e \<Rightarrow> Inl e | Inr t \<Rightarrow> Inr [(''query'', PStr t)])
         else Inr [])
      else if intent_type = ''open_app'' then
        (if groups \<noteq> [] then
           (case group_strip (groups ! 0) of Inl e \<Rightarrow> Inl e | Inr t \<Rightarrow> Inr [(''app_name'', PStr t)])
         else Inr [])
      else if intent_type = ''file_operation'' then
        (if groups \<noteq> [] then
           (case group_strip (groups ! 0) of
              Inl e \<Rightarrow> Inl e
            | Inr t \<Rightarrow>
               (if length groups > 1 then
                  (case group_strip (groups ! 1) of
                     Inl e \<Rightarrow> Inl e
                   | Inr u \<Rightarrow> Inr [(''operation'', PStr t), (''target'', PStr u)])
                else Inr [(''operation'', PStr t)]))
         else Inr [])
      else Inr [])"

definition groups_tuple :: "string option list \<Rightarrow> pyval" where
  "groups_tuple gs = PTuple (map (\<lambda>g. case g of None \<Rightarrow> PNone | Some t \<Rightarrow> PStr t) gs)"

definition check_pattern_matches :: "string \<Rightarrow> py_error + pydict option" where
  "check_pattern_matches text =
     (case intents_loop text intent_patterns (None, 0) of
        Inl e \<Rightarrow> Inl e
      | Inr (None, c) \<Rightarrow> Inr None
      | Inr (Some (intent_type, m, groups), c) \<Rightarrow>
          (case extract_intent_data intent_type groups text of
             Inl e \<Rightarrow> Inl e
           | Inr intent_data \<Rightarrow>
               Inr (Some (dict_update [(''type'', PStr intent_type), (''match'', PStr m),
                                       (''groups'', groups_tuple groups)] intent_data))))"

text \<open>\<^verbatim>\<open>_check_keyword_matches\<close>\<close>

definition keywords_tbl :: "(string \<times> string list) list" where
  "keywords_tbl = [
    (''screen_read'', [''screen'', ''display'', ''read'', ''what'', ''see'', ''visible'']),
    (''webcam_analyze'', [''camera'', ''webcam'', ''video'', ''photo'', ''picture'']),
    (''type_text'', [''type'', ''write'', ''enter'', ''input'', ''text'']),
    (''click'', [''click'', ''tap'', ''press'', ''select'']),
    (''move_mouse'', [''move'', ''position'', ''go'', ''mouse'', ''cursor'']),
    (''search_web'', [''search'', ''find'', ''google'', ''look'', ''web'']),
    (''open_app'', [''open'', ''launch'', ''start'', ''run'', ''app'', ''program'']),
    (''file_operation'', [''file'', ''document'', ''folder'', ''save'', ''delete'', ''copy'']),
    (''system_control'', [''shutdown'', ''restart'', ''volume'', ''brightness'', ''system'']),
    (''memory_query'', [''remember'', ''recall'', ''history'', ''memory'', ''past'']),
    (''preference_setting'', [''preference'', ''setting'', ''configure'', ''voice'', ''camera'']),
    (''help_request'', [''help'', ''assist'', ''support'', ''how'', ''what'']),
    (''general_chat'', [''hello'', ''hi'', ''how'', ''thank'', ''goodbye'', ''bye''])]"

fun count_keywords :: "string \<Rightarrow> string list \<Rightarrow> nat" where
  "count_keywords text [] = 0"
| "count_keywords text (keyword # rest) =
     (if contains text keyword then 1 else 0) + count_keywords text rest"

fun keywords_loop :: "string \<Rightarrow> (string \<times> string list) list \<Rightarrow> string option \<times> rat
                        \<Rightarrow> string option \<times> rat" where
  "keywords_loop text [] st = st"
| "keywords_loop text ((intent_type, intent_keywords) # rest) (best_intent, best_score) =
     (let score = count_keywords text intent_keywords
      in if score > 0 then
           (let normalized_score = of_nat score / of_nat (length intent_keywords)
            in if normalized_score > best_score
               then keywords_loop text rest (Some intent_type, normalized_score)
               else keywords_loop text rest (best_intent, best_score))
         else keywords_loop text rest (best_intent, best_score))"

definition check_keyword_matches :: "string \<Rightarrow> pydict option" where
  "check_keyword_matches text =
     (case keywords_loop text keywords_tbl (None, 0) of
        (None, s) \<Rightarrow> None
      | (Some best_intent, best_score) \<Rightarrow>
          if best_intent \<noteq> [] \<and> best_score > 3 / 10
          then Some [(''type'', PStr best_intent), (''keyword_score'', PFloat best_score)]
          else None)"

text \<open>\<^verbatim>\<open>_extract_entities\<close>\<close>

fun entities_loop :: "string \<Rightarrow> (string \<times> regex) list \<Rightarrow> pydict \<Rightarrow> pydict" where
  "entities_loop text [] entities = entities"
| "entities_loop text ((entity_type, pattern) # rest) entities =
     (let matches = re_findall pattern text
      in if matches \<noteq> [] then entities_loop text rest (dict_set entities entity_type (PList matches))
         else entities_loop text rest entities)"

definition extract_entities :: "string \<Rightarrow> pydict" where
  "extract_entities text = entities_loop text entity_patterns []"

text \<open>
  \<^verbatim>\<open>parse_intent\<close>. The clock reading is the argument \<open>now\<close>. A dictionary is true when it
  has an entry.
\<close>

definition parse_intent :: "string \<Rightarrow> string \<Rightarrow> py_error + pydict" where
  "parse_intent now text0 =
     (let text = strip (lower text0);
          result = [(''type'', PStr ''unknown''), (''confidence'', PFloat 0),
                    (''entities'', PDict []), (''raw_text'', PStr text),
                    (''timestamp'', PStr now)]
      in case check_exact_matches text of
           Some (e # es) \<Rightarrow>
             Inr (dict_set (dict_update result (e # es)) ''confidence'' (PFloat (weight ''exact_match'')))
         | _ \<Rightarrow>
            (case check_pattern_matches text of
               Inl err \<Rightarrow> Inl err
             | Inr (Some (e # es)) \<Rightarrow>
                 Inr (dict_set (dict_update result (e # es)) ''confidence''
                        (PFloat (weight ''pattern_match'')))
             | Inr _ \<Rightarrow>
                (case check_keyword_matches text of
                   Some (e # es) \<Rightarrow>
                     Inr (dict_set (dict_update result (e # es)) ''confidence''
                            (PFloat (weight ''keyword_match'')))
                 | _ \<Rightarrow> Inr (dict_set result ''entities'' (PDict (extract_entities text))))))"


section \<open>The intent validator\<close>

text \<open>\<^verbatim>\<open>get_intent_description\<close> and \<^verbatim>\<open>get_suggested_actions\<close>: a dictionary lookup with a
  default. The key is whatever \<^verbatim>\<open>intent.get('type')\<close> gave; a list or a dictionary cannot be a
  key and raises \<^verbatim>\<open>TypeError\<close>.\<close>

fun hashable :: "pyval \<Rightarrow> bool" where
  "hashable (PTuple vs) = list_all hashable vs"
| "hashable (PList vs) = False"
| "hashable (PDict d) = False"
| "hashable v = True"

definition descriptions :: "(string \<times> string) list" where
  "descriptions = [
    (''screen_read'', ''Read and analyze screen content''),
    (''webcam_analyze'', ''Analyze webcam feed''),
    (''type_text'', ''Type text input''),
    (''click'', ''Click at coordinates''),
    (''move_mouse'', ''Move mouse cursor''),
    (''search_web'', ''Search the web''),
    (''open_app'', ''Open application''),
    (''file_operation'', ''Perform file operations''),
    (''system_control'', ''Control system settings''),
    (''memory_query'', ''Query conversation history''),
    (''preference_setting'', ''Change user preferences''),
    (''help_request'', ''Request help or information''),
    (''general_chat'', ''General conversation''),
    (''unknown'', ''Unknown or unclear intent'')]"

definition get_intent_description :: "pyval \<Rightarrow> py_error + string" where
  "get_intent_description intent_type =
     (if \<not> hashable intent_type then Inl TypeError
      else (case intent_type of
              PStr k \<Rightarrow> (case map_of descriptions k of Some d \<Rightarrow> Inr d | None \<Rightarrow> Inr ''Unknown intent'')
            | _ \<Rightarrow> Inr ''Unknown intent''))"

definition suggestions_tbl :: "(string \<times> string list) list" where
  "suggestions_tbl = [
    (''screen_read'', [''Take a screenshot'', ''Extract text from screen'', ''Analyze screen content'']),
    (''webcam_analyze'', [''Capture webcam frame'', ''Detect faces in view'', ''Analyze scene content'']),
    (''type_text'', [''Extract text to type'', ''Confirm text content'', ''Execute typing action'']),
    (''click'', [''Validate coordinates'', ''Execute click action'', ''Provide feedback'']),
    (''help_request'', [''Show available commands'', ''Explain capabilities'', ''Provide usage examples''])]"

definition get_suggested_actions :: "pyval \<Rightarrow> py_error + string list" where
  "get_suggested_actions intent_type =
     (if \<not> hashable intent_type then Inl TypeError
      else (case intent_type of
              PStr k \<Rightarrow> (case map_of suggestions_tbl k of Some s \<Rightarrow> Inr s | None \<Rightarrow> Inr [])
            | _ \<Rightarrow> Inr []))"

text \<open>\<^verbatim>\<open>d.get(k)\<close> with \<^verbatim>\<open>None\<close> for an absent key, and \<^verbatim>\<open>d.get(k, default)\<close>.\<close>

definition py_get :: "pydict \<Rightarrow> string \<Rightarrow> pyval" where
  "py_get d k = (case map_of d k of None \<Rightarrow> PNone | Some v \<Rightarrow> v)"

definition py_get_default :: "pydict \<Rightarrow> string \<Rightarrow> pyval \<Rightarrow> pyval" where
  "py_get_default d k dflt = (case map_of d k of None \<Rightarrow> dflt | Some v \<Rightarrow> v)"

text \<open>Truth value, length and order of Python objects. Numbers compare with numbers; a
  comparison of a number with anything else raises \<^verbatim>\<open>TypeError\<close>, as does the length of
  an object that has none.\<close>

fun truthy :: "pyval \<Rightarrow> bool" where
  "truthy PNone = False"
| "truthy (PStr s) = (s \<noteq> [])"
| "truthy (PInt n) = (n \<noteq> 0)"
| "truthy (PFloat r) = (r \<noteq> 0)"
| "truthy (PBool b) = b"
| "truthy (PTuple vs) = (vs \<noteq> [])"
| "truthy (PList vs) = (vs \<noteq> [])"
| "truthy (PDict d) = (d \<noteq> [])"

fun py_len :: "pyval \<Rightarrow> py_error + nat" where
  "py_len (PStr s) = Inr (length s)"
| "py_len (PTuple vs) = Inr (length vs)"
| "py_len (PList vs) = Inr (length vs)"
| "py_len (PDict d) = Inr (length d)"
| "py_len v = Inl TypeError"

fun num_of :: "pyval \<Rightarrow> rat option" where
  "num_of (PInt n) = Some (of_int n)"
| "num_of (PFloat r) = Some r"
| "num_of (PBool b) = Some (if b then 1 else 0)"
| "num_of v = None"

text \<open>\<^verbatim>\<open>lo <= v <= hi\<close> for integer bounds: the second comparison is made only when the first
  holds.\<close>

definition between :: "int \<Rightarrow> pyval \<Rightarrow> int \<Rightarrow> py_error + bool" where
  "between lo v hi =
     (case num_of v of None \<Rightarrow> Inl TypeError
      | Some r \<Rightarrow> Inr (if of_int lo \<le> r then r \<le> of_int hi else False))"

record validation_result =
  is_valid :: bool
  warnings :: "string list"
  suggestions :: "string list"

text \<open>The branches of \<^verbatim>\<open>validate_intent\<close> give validity and warnings; the suggestions
  are added after them.\<close>

definition validate_click :: "pydict \<Rightarrow> py_error + bool \<times> string list" where
  "validate_click intent =
     (let x = py_get intent ''x''; y = py_get intent ''y''
      in if x = PNone \<or> y = PNone then Inr (False, [''Missing coordinates for click action''])
         else (case between 0 x 3000 of
                 Inl e \<Rightarrow> Inl e
               | Inr False \<Rightarrow> Inr (True, [''Coordinates may be outside screen bounds''])
               | Inr True \<Rightarrow>
                  (case between 0 y 2000 of
                     Inl e \<Rightarrow> Inl e
                   | Inr False \<Rightarrow> Inr (True, [''Coordinates may be outside screen bounds''])
                   | Inr True \<Rightarrow> Inr (True, []))))"

definition validate_type_text :: "pydict \<Rightarrow> py_error + bool \<times> string list" where
  "validate_type_text intent =
     (let text = py_get_default intent ''text'' (PStr [])
      in if \<not> truthy text then Inr (False, [''No text specified for typing''])
         else (case py_len text of
                 Inl e \<Rightarrow> Inl e
               | Inr n \<Rightarrow> if n > 1000 then Inr (True, [''Text is very long, consider breaking it up''])
                          else Inr (True, [])))"

definition validate_search_web :: "pydict \<Rightarrow> py_error + bool \<times> string list" where
  "validate_search_web intent =
     (let query = py_get_default intent ''query'' (PStr [])
      in if \<not> truthy query then Inr (False, [''No search query specified''])
         else Inr (True, []))"

definition validate_result :: "pydict \<Rightarrow> py_error + validation_result" where
  "validate_result intent =
     (let intent_type = py_get intent ''type'';
          checked = (if intent_type = PStr ''click'' then validate_click intent
                     else if intent_type = PStr ''type_text'' then validate_type_text intent
                     else if intent_type = PStr ''search_web'' then validate_search_web intent
                     else Inr (True, []))
      in case checked of
           Inl e \<Rightarrow> Inl e
         | Inr (valid, warns) \<Rightarrow>
            (case get_suggested_actions intent_type of
               Inl e \<Rightarrow> Inl e
             | Inr sugg \<Rightarrow> Inr \<lparr>is_valid = valid, warnings = warns, suggestions = sugg\<rparr>))"

text \<open>\<^verbatim>\<open>validate_intent\<close> reads its argument through \<^verbatim>\<open>.get\<close> and never writes to it. The
  first component of the result is the dictionary as the call leaves it, the second what
  the call returns or raises.\<close>

definition validate_intent :: "pydict \<Rightarrow> pydict \<times> (py_error + validation_result)" where
  "validate_intent intent = (intent, validate_result intent)"

section \<open>The memory store\<close>

text \<open>
  \<^verbatim>\<open>EnhancedMemory\<close> keeps its entries in a ChromaDB collection. ChromaDB is a library, so
  the collection is an abstract state \<open>'c\<close> with the three operations the class calls.
  Each of them returns its result or raises; \<^verbatim>\<open>add\<close> returns the new state of the
  collection, and a call that raises leaves the collection as it was. The properties below
  hold for every such backend.
\<close>

text \<open>What \<^verbatim>\<open>collection.query\<close> returns: per query text a list of ids, documents, metadata and
  distances; a field that was not asked for is \<^verbatim>\<open>None\<close>.\<close>

record query_result =
  q_ids :: "string list list option"
  q_documents :: "string list list option"
  q_metadatas :: "pyval list list option"
  q_distances :: "rat list list option"

text \<open>What \<^verbatim>\<open>collection.get()\<close> returns: three parallel lists. An entry stored without metadata
  has metadata \<^verbatim>\<open>None\<close>.\<close>

record get_result =
  g_ids :: "string list"
  g_documents :: "string list"
  g_metadatas :: "pyval list"

record 'c backend =
  coll_add :: "'c \<Rightarrow> string \<Rightarrow> pydict \<Rightarrow> string \<Rightarrow> rat list option \<Rightarrow> py_error + 'c"
  coll_query :: "'c \<Rightarrow> string \<Rightarrow> int \<Rightarrow> pydict option \<Rightarrow> py_error + query_result"
  coll_get :: "'c \<Rightarrow> py_error + get_result"

text \<open>The dictionaries the class builds have fixed keys and are records here: a memory as
  the read operations return it (\<^verbatim>\<open>distance\<close> is present in search results only), and an
  entry of the conversation buffer.\<close>

record memory_item =
  m_content :: string
  m_metadata :: pyval
  m_id :: string
  m_distance :: "pyval option"

record buffer_entry =
  b_content :: string
  b_metadata :: pydict
  b_timestamp :: rat

text \<open>The fields of \<^verbatim>\<open>self\<close> that the operations use. \<^verbatim>\<open>collection\<close> is \<^verbatim>\<open>None\<close> when the
  database failed to initialize.\<close>

record 'c enhanced_memory =
  collection :: "'c option"
  conversation_buffer :: "buffer_entry list"
  max_buffer_size :: int

text \<open>What one call reads from outside: the clock (\<^verbatim>\<open>str(time.time())\<close> for the id,
  \<^verbatim>\<open>datetime.now().isoformat()\<close> for the metadata, \<^verbatim>\<open>time.time()\<close> for the buffer) and the
  MD5 digest in hexadecimal.\<close>

record env =
  id_time :: string
  now_iso :: string
  buf_time :: rat
  md5_hex :: "string \<Rightarrow> string"

text \<open>Slices \<^verbatim>\<open>xs[:n]\<close> and \<^verbatim>\<open>xs[n:]\<close>: a negative \<open>n\<close> counts from the end, and \<^verbatim>\<open>-0\<close> is \<open>0\<close>.\<close>

definition slice_to :: "int \<Rightarrow> 'a list \<Rightarrow> 'a list" where
  "slice_to n xs = (if 0 \<le> n then take (nat n) xs else take (length xs - nat (- n)) xs)"

definition slice_from :: "int \<Rightarrow> 'a list \<Rightarrow> 'a list" where
  "slice_from n xs = (if 0 \<le> n then drop (nat n) xs else drop (length xs - nat (- n)) xs)"

text \<open>\<^verbatim>\<open>xs[i]\<close> for \<open>i \<ge> 0\<close>, with \<^verbatim>\<open>IndexError\<close> out of range.\<close>

definition item :: "'a list \<Rightarrow> nat \<Rightarrow> py_error + 'a" where
  "item xs i = (if i < length xs then Inr (xs ! i) else Inl IndexError)"

text \<open>\<^verbatim>\<open>_generate_id\<close> and \<^verbatim>\<open>_add_to_buffer\<close>\<close>

definition generate_id :: "env \<Rightarrow> string \<Rightarrow> string \<Rightarrow> string" where
  "generate_id e content category =
     category @ ''_'' @ id_time e @ ''_'' @ take 8 (md5_hex e content)"

definition add_to_buffer :: "env \<Rightarrow> 'c enhanced_memory \<Rightarrow> string \<Rightarrow> pydict \<Rightarrow> 'c enhanced_memory" where
  "add_to_buffer e self content metadata =
     (let buffer = conversation_buffer self
                     @ [\<lparr>b_content = content, b_metadata = metadata, b_timestamp = buf_time e\<rparr>]
      in if int (length buffer) > max_buffer_size self
         then self\<lparr>conversation_buffer := slice_from (- max_buffer_size self) buffer\<rparr>
         else self\<lparr>conversation_buffer := buffer\<rparr>)"

text \<open>\<^verbatim>\<open>add_memory\<close> returns the id, or \<^verbatim>\<open>None\<close>, and the new state of the object.\<close>

definition add_memory :: "'c backend \<Rightarrow> env \<Rightarrow> 'c enhanced_memory \<Rightarrow> string \<Rightarrow> string
    \<Rightarrow> pydict option \<Rightarrow> rat list option \<Rightarrow> string option \<times> 'c enhanced_memory" where
  "add_memory B e self content category metadata embedding =
     (case collection self of
        None \<Rightarrow> (None, self)
      | Some c \<Rightarrow>
         (let memory_id = generate_id e content category;
              meta0 = [(''category'', PStr category), (''timestamp'', PStr (now_iso e)),
                       (''content_length'', PInt (int (length content)))];
              meta = (case metadata of None \<Rightarrow> meta0 | Some md \<Rightarrow> dict_update meta0 md);
              embeddings = (case embedding of None \<Rightarrow> None
                            | Some v \<Rightarrow> if v = [] then None else Some v)
          in case coll_add B c content meta memory_id embeddings of
               Inl err \<Rightarrow> (None, self)
             | Inr c' \<Rightarrow>
                 (let self' = self\<lparr>collection := Some c'\<rparr>
                  in if category = ''conversation''
                     then (Some memory_id, add_to_buffer e self' content meta)
                     else (Some memory_id, self'))))"

text \<open>\<^verbatim>\<open>add_conversation\<close>: two calls of \<^verbatim>\<open>add_memory\<close>, each with its own clock readings.\<close>

definition add_conversation :: "'c backend \<Rightarrow> env \<Rightarrow> env \<Rightarrow> 'c enhanced_memory \<Rightarrow> string \<Rightarrow> string
    \<Rightarrow> 'c enhanced_memory" where
  "add_conversation B e1 e2 self user_input assistant_response =
     (let self1 = snd (add_memory B e1 self (''User: '' @ user_input) ''conversation''
                         (Some [(''speaker'', PStr ''user''), (''turn'', PStr ''input'')]) None)
      in snd (add_memory B e2 self1 (''Assistant: '' @ assistant_response) ''conversation''
                (Some [(''speaker'', PStr ''assistant''), (''turn'', PStr ''response'')]) None))"

text \<open>\<^verbatim>\<open>search_memories\<close>. The loop that formats the reply indexes three parallel lists; any
  exception inside the \<^verbatim>\<open>try\<close> block makes the result the empty list.\<close>

fun format_loop :: "nat \<Rightarrow> string list \<Rightarrow> query_result \<Rightarrow> py_error + memory_item list" where
  "format_loop i [] results = Inr []"
| "format_loop i (doc # docs) results =
     (case q_metadatas results of
        None \<Rightarrow> Inl TypeError
      | Some mss \<Rightarrow>
       (case item mss 0 of Inl e \<Rightarrow> Inl e | Inr ms \<Rightarrow>
       (case item ms i of Inl e \<Rightarrow> Inl e | Inr meta \<Rightarrow>
       (case q_ids results of
          None \<Rightarrow> Inl TypeError
        | Some idss \<Rightarrow>
         (case item idss 0 of Inl e \<Rightarrow> Inl e | Inr ids \<Rightarrow>
         (case item ids i of Inl e \<Rightarrow> Inl e | Inr mid \<Rightarrow>
         (case (case q_distances results of
                  None \<Rightarrow> Inr PNone
                | Some [] \<Rightarrow> Inr PNone
                | Some (ds # dss) \<Rightarrow>
                    (case item ds i of Inl e \<Rightarrow> Inl e | Inr d \<Rightarrow> Inr (PFloat d))) of
            Inl e \<Rightarrow> Inl e
          | Inr dval \<Rightarrow>
             (case format_loop (Suc i) docs results of
                Inl e \<Rightarrow> Inl e
              | Inr rest \<Rightarrow>
                  Inr (\<lparr>m_content = doc, m_metadata = meta, m_id = mid, m_distance = Some dval\<rparr>
                         # rest)))))))))"

definition format_results :: "query_result \<Rightarrow> py_error + memory_item list" where
  "format_results results =
     (case q_documents results of
        None \<Rightarrow> Inr []
      | Some [] \<Rightarrow> Inr []
      | Some (docs # rest) \<Rightarrow> format_loop 0 docs results)"

definition where_clause :: "string option \<Rightarrow> pydict option" where
  "where_clause category =
     (case category of None \<Rightarrow> None
      | Some name \<Rightarrow> if name = [] then None else Some [(''category'', PStr name)])"

definition search_memories :: "'c backend \<Rightarrow> 'c enhanced_memory \<Rightarrow> string \<Rightarrow> string option \<Rightarrow> int
    \<Rightarrow> memory_item list" where
  "search_memories B self query category n_results =
     (case collection self of
        None \<Rightarrow> []
      | Some c \<Rightarrow>
         (case coll_query B c query n_results (where_clause category) of
            Inl err \<Rightarrow> []
          | Inr results \<Rightarrow>
             (case format_results results of Inl err \<Rightarrow> [] | Inr memories \<Rightarrow> memories)))"



text \<open>
  The sort key \<^verbatim>\<open>x['metadata'].get('timestamp', '')\<close>, and \<^verbatim>\<open>sort(key=..., reverse=True)\<close>.
  ChromaDB stores strings and numbers in metadata. Strings compare with strings, numbers
  with numbers; a list that holds both cannot be sorted and raises \<^verbatim>\<open>TypeError\<close>, and a
  list of at most one entry needs no comparison. The sort is stable: entries with equal
  keys keep their order. Keys of another kind are reported as \<^verbatim>\<open>TypeError\<close>.
\<close>

definition timestamp_key :: "memory_item \<Rightarrow> py_error + pyval" where
  "timestamp_key x =
     (case m_metadata x of
        PDict m \<Rightarrow> Inr (py_get_default m ''timestamp'' (PStr []))
      | _ \<Rightarrow> Inl AttributeError)"


fun is_str :: "pyval \<Rightarrow> bool" where
  "is_str (PStr s) = True"
| "is_str v = False"

fun str_of :: "pyval \<Rightarrow> string" where
  "str_of (PStr s) = s"
| "str_of v = []"

definition rat_of :: "pyval \<Rightarrow> rat" where
  "rat_of v = (case num_of v of Some r \<Rightarrow> r | None \<Rightarrow> 0)"




section \<open>The context composer\<close>

text \<open>\<^verbatim>\<open>sep.join(parts)\<close>\<close>

fun join :: "string \<Rightarrow> string list \<Rightarrow> string" where
  "join sep [] = []"
| "join sep [x] = x"
| "join sep (x # y # ys) = x @ sep @ join sep (y # ys)"

definition newline :: string where
  "newline = [CHR 0x0A]"

text \<open>One line of context: the first 200 characters of the content, then three dots.\<close>

definition preview :: "string \<Rightarrow> string" where
  "preview content = ''- '' @ slice_to 200 content @ ''...''"

text \<open>\<^verbatim>\<open>get_context_for_conversation\<close>: \<^verbatim>\<open>context_parts\<close> grows by one header and one line per
  entry for each of the two sources that has entries.\<close>

definition get_context_for_conversation :: "'c backend \<Rightarrow> 'c enhanced_memory \<Rightarrow> string \<Rightarrow> int \<Rightarrow> string" where
  "get_context_for_conversation B self current_query max_context =
     (let relevant_memories = search_memories B self current_query (Some ''conversation'') max_context;
          recent_buffer = (if conversation_buffer self \<noteq> []
                           then slice_from (- max_context) (conversation_buffer self) else []);
          context_parts = [];
          context_parts = (if relevant_memories \<noteq> []
                           then context_parts @ [''Relevant past conversations:'']
                                  @ map (\<lambda>memory. preview (m_content memory)) relevant_memories
                           else context_parts);
          context_parts = (if recent_buffer \<noteq> []
                           then context_parts @ [newline @ ''Recent conversation:'']
                                  @ map (\<lambda>entry. preview (b_content entry)) recent_buffer
                           else context_parts)
      in if context_parts \<noteq> [] then join newline context_parts else [])"

text \<open>
  \<^verbatim>\<open>_build_context\<close> of the orchestrator. \<open>webcam\<close> is \<open>None\<close> when there is no webcam object
  and otherwise what \<^verbatim>\<open>get_scene_description\<close> returns; it is asked only when the intent is
  not \<^verbatim>\<open>webcam_analyze\<close>. \<open>tool_result\<close> is the optional string of the tool that ran.
\<close>

definition no_webcam :: string where
  "no_webcam = ''No webcam feed available''"

definition build_context :: "'c backend \<Rightarrow> 'c enhanced_memory \<Rightarrow> string option \<Rightarrow> string \<Rightarrow> pydict
    \<Rightarrow> string option \<Rightarrow> py_error + string" where
  "build_context B memory webcam user_input intent tool_result =
     (let context_parts = [];
          memory_context = get_context_for_conversation B memory user_input 5;
          context_parts = (if memory_context \<noteq> []
                           then context_parts @ [''Memory Context:'' @ newline @ memory_context]
                           else context_parts);
          context_parts = (case webcam of
                             None \<Rightarrow> context_parts
                           | Some webcam_context \<Rightarrow>
                               if py_get intent ''type'' \<noteq> PStr ''webcam_analyze''
                                  \<and> webcam_context \<noteq> no_webcam
                               then context_parts @ [''Current Webcam: '' @ webcam_context]
                               else context_parts);
          context_parts = (case tool_result of
                             None \<Rightarrow> context_parts
                           | Some t \<Rightarrow> if t \<noteq> [] then context_parts @ [''Tool Result: '' @ t]
                                       else context_parts)
      in case get_intent_description (py_get_default intent ''type'' (PStr ''unknown'')) of
           Inl err \<Rightarrow> Inl err
         | Inr intent_desc \<Rightarrow>
             Inr (join (newline @ newline) (context_parts @ [''Detected Intent: '' @ intent_desc])))"

text \<open>
  A store to run the operations on: a list of entries, newest last. It accepts every
  entry, answers a query with the first \<open>n\<close> entries that satisfy the category filter, and
  is used for concrete inputs only.
\<close>

type_synonym list_store = "(string \<times> string \<times> pydict) list"

definition list_backend :: "list_store backend" where
  "list_backend =
     \<lparr>coll_add = (\<lambda>c doc meta mid emb. Inr (c @ [(mid, doc, meta)])),
      coll_query = (\<lambda>c q n w.
         (let hits = slice_to n (filter (\<lambda>(mid, doc, meta).
                        case w of None \<Rightarrow> True
                        | Some cl \<Rightarrow> py_get meta ''category'' = py_get cl ''category'') c)
          in Inr \<lparr>q_ids = Some [map fst hits],
                  q_documents = Some [map (\<lambda>(mid, doc, meta). doc) hits],
                  q_metadatas = Some [map (\<lambda>(mid, doc, meta). PDict meta) hits],
                  q_distances = Some [map (\<lambda>h. 0) hits]\<rparr>)),
      coll_get = (\<lambda>c. Inr \<lparr>g_ids = map fst c,
                           g_documents = map (\<lambda>(mid, doc, meta). doc) c,
                           g_metadatas = map (\<lambda>(mid, doc, meta). PDict meta) c\<rparr>)\<rparr>"


definition test_env :: env where
  "test_env = \<lparr>id_time = ''1714557600.0'', now_iso = ''2024-05-01T10:00:00'',
               buf_time = 1714557600, md5_hex = (\<lambda>s. ''0123456789abcdef0123456789abcdef'')\<rparr>"

section \<open>Notions used to state the properties\<close>

text \<open>The timestamp of a memory as the sort reads it, the order of two sort keys (strings
  with strings, numbers with numbers), and the category a memory was stored under.\<close>

definition timestamp_of :: "memory_item \<Rightarrow> pyval" where
  "timestamp_of x = (case timestamp_key x of Inr k \<Rightarrow> k | Inl e \<Rightarrow> PNone)"

definition key_ge :: "pyval \<Rightarrow> pyval \<Rightarrow> bool" where
  "key_ge a b =
     (if is_str a \<and> is_str b then str_of b \<le> str_of a
      else if num_of a \<noteq> None \<and> num_of b \<noteq> None then rat_of b \<le> rat_of a
      else False)"

definition category_of :: "memory_item \<Rightarrow> pyval" where
  "category_of x = (case m_metadata x of PDict m \<Rightarrow> py_get m ''category'' | _ \<Rightarrow> PNone)"

section \<open>Properties of the intent router\<close>

subsection \<open>Dictionaries\<close>

lemma map_of_dict_set: "map_of (dict_set d k v) k' = (if k' = k then Some v else map_of d k')"
  by (induction d) auto

lemma map_of_dict_update:
  "map_of (dict_update d e) k = (case map_of (rev e) k of Some v \<Rightarrow> Some v | None \<Rightarrow> map_of d k)"
  by (induction e arbitrary: d) (auto simp: map_of_dict_set split: option.splits)

lemma map_of_dict_update_absent:
  "map_of e k = None \<Longrightarrow> map_of (dict_update d e) k = map_of d k"
proof -
  assume "map_of e k = None"
  then have "k \<notin> fst ` set (rev e)" by (simp add: map_of_eq_None_iff)
  then have "map_of (rev e) k = None" by (simp only: map_of_eq_None_iff not_False_eq_True)
  then show ?thesis by (simp add: map_of_dict_update)
qed

lemma map_of_rev_distinct: "distinct (map fst e) \<Longrightarrow> map_of (rev e) = map_of e"
  by (metis distinct_rev map_of_inject_set rev_map set_rev)

subsection \<open>The exact-match tier\<close>

lemma first_equal_exact:
  "(phrase, intent) \<in> set exact_phrases \<Longrightarrow> first_equal phrase exact_phrases = Some intent"
  unfolding exact_phrases_def by (simp, elim disjE) simp_all

lemma exact_intents_shape:
  "(phrase, intent) \<in> set exact_phrases \<Longrightarrow>
     intent \<noteq> [] \<and> distinct (map fst intent) \<and> map_of intent ''confidence'' = None
       \<and> map_of intent ''entities'' = None
       \<and> (\<exists>k. map_of intent ''type'' = Some (PStr k) \<and> k \<noteq> ''unknown'')"
  unfolding exact_phrases_def by (simp, elim disjE) simp_all

lemma parse_intent_exact:
  assumes "check_exact_matches (strip (lower text)) = Some intent" and "intent \<noteq> []"
  shows "parse_intent now text =
           Inr (dict_set (dict_update [(''type'', PStr ''unknown''), (''confidence'', PFloat 0),
                    (''entities'', PDict []), (''raw_text'', PStr (strip (lower text))),
                    (''timestamp'', PStr now)] intent) ''confidence'' (PFloat 1))"
  using assms by (cases intent) (simp_all add: parse_intent_def Let_def weight_def confidence_weights_def)

text \<open>
  Claim C4. When the lower-cased, stripped text is one of the cataloged exact phrases,
  \<^verbatim>\<open>parse_intent\<close> returns a record whose \<^verbatim>\<open>type\<close> is the kind the table gives for that
  phrase, whose \<^verbatim>\<open>subtype\<close> is the table's where it has one (and is absent where it has
  none), and whose confidence is exactly 1.0. Nothing is asked of the pattern or keyword
  tiers: the exact tier answers before they are looked at.
\<close>

theorem exact_match_tier:
  assumes "(phrase, intent) \<in> set exact_phrases" and "strip (lower text) = phrase"
  shows "\<exists>d. parse_intent now text = Inr d
           \<and> map_of d ''type'' = map_of intent ''type''
           \<and> map_of d ''subtype'' = map_of intent ''subtype''
           \<and> map_of d ''confidence'' = Some (PFloat 1)"
proof -
  from assms(1) have sh: "intent \<noteq> []" "distinct (map fst intent)"
    "\<exists>k. map_of intent ''type'' = Some (PStr k)"
    using exact_intents_shape by blast+
  have "check_exact_matches (strip (lower text)) = Some intent"
    using assms by (simp add: check_exact_matches_def first_equal_exact)
  from parse_intent_exact [OF this sh(1)] sh show ?thesis
    by (auto simp: map_of_dict_set map_of_dict_update map_of_rev_distinct split: option.splits)
qed

theorem exact_match_tier_witness:
  "(''thank you'', [(''type'', PStr ''general_chat''), (''subtype'', PStr ''gratitude'')])
      \<in> set exact_phrases
   \<and> strip (lower ''  Thank You '') = ''thank you''
   \<and> (\<exists>d. parse_intent ''2024-05-01T10:00:00'' ''  Thank You '' = Inr d
           \<and> map_of d ''type'' = Some (PStr ''general_chat'')
           \<and> map_of d ''subtype'' = Some (PStr ''gratitude'')
           \<and> map_of d ''confidence'' = Some (PFloat 1))"
proof -
  have m: "(''thank you'', [(''type'', PStr ''general_chat''), (''subtype'', PStr ''gratitude'')])
             \<in> set exact_phrases"
    by (simp add: exact_phrases_def)
  have n: "strip (lower ''  Thank You '') = ''thank you''"
    by code_simp
  show ?thesis
    using m n exact_match_tier [OF m n, of "''2024-05-01T10:00:00''"] by simp
qed

subsection \<open>What each tier adds to the record\<close>

lemma first_equal_Some: "first_equal text ps = Some i \<Longrightarrow> (text, i) \<in> set ps"
  by (induction ps) (auto split: if_splits)

lemma map_of_dict_update_None:
  "map_of e k = None \<Longrightarrow> map_of d k = None \<Longrightarrow> map_of (dict_update d e) k = None"
  by (simp add: map_of_dict_update_absent)

lemma group_strip_Inr: "group_strip g = Inr t \<Longrightarrow> \<exists>u. g = Some u \<and> t = strip u"
  by (auto simp: group_strip_def split: option.splits)

lemma xy_data_keys:
  "xy_data groups = Inr data \<Longrightarrow> fst ` set data \<subseteq> {''x'', ''y''}"
  by (auto simp: xy_data_def split: if_splits option.splits)

lemma extract_intent_data_keys:
  "extract_intent_data intent_type groups text = Inr data \<Longrightarrow>
     fst ` set data \<subseteq> {''text'', ''x'', ''y'', ''query'', ''app_name'', ''operation'', ''target''}"
  unfolding extract_intent_data_def
  by (auto split: if_splits sum.splits dest!: xy_data_keys)

lemma check_pattern_matches_Some:
  assumes "check_pattern_matches text = Inr (Some d)"
  obtains ty m gs c data where
    "intents_loop text intent_patterns (None, 0) = Inr (Some (ty, m, gs), c)"
    "extract_intent_data ty gs text = Inr data"
    "d = dict_update [(''type'', PStr ty), (''match'', PStr m), (''groups'', groups_tuple gs)] data"
  using assms unfolding check_pattern_matches_def
  by (auto split: sum.splits option.splits prod.splits)

lemma check_pattern_matches_keys:
  assumes "check_pattern_matches text = Inr (Some d)"
  shows "map_of d ''entities'' = None" and "\<exists>ty. map_of d ''type'' = Some (PStr ty)"
proof -
  from assms obtain ty m gs c data where
    e: "extract_intent_data ty gs text = Inr data" and
    d: "d = dict_update [(''type'', PStr ty), (''match'', PStr m), (''groups'', groups_tuple gs)] data"
    by (rule check_pattern_matches_Some)
  from extract_intent_data_keys [OF e]
  have "''entities'' \<notin> fst ` set data" and "''type'' \<notin> fst ` set data" by auto
  then have n: "map_of data ''entities'' = None" "map_of data ''type'' = None"
    by (simp_all add: map_of_eq_None_iff)
  show "map_of d ''entities'' = None"
    by (simp add: d map_of_dict_update_absent [OF n(1)])
  show "\<exists>ty. map_of d ''type'' = Some (PStr ty)"
    by (simp add: d map_of_dict_update_absent [OF n(2)])
qed

lemma check_keyword_matches_Some:
  "check_keyword_matches text = Some d \<Longrightarrow>
     \<exists>ty sc. d = [(''type'', PStr ty), (''keyword_score'', PFloat sc)]"
  by (auto simp: check_keyword_matches_def split: prod.splits option.splits if_splits)

text \<open>
  Claim C10. Whenever \<^verbatim>\<open>parse_intent\<close> returns a record whose kind is not \<^verbatim>\<open>unknown\<close>, that
  is, whenever the exact, the pattern or the keyword tier answered, the \<^verbatim>\<open>entities\<close> entry
  of the record is the empty dictionary: entity extraction runs on the fallback path only.
\<close>

theorem classified_records_have_no_entities:
  assumes "parse_intent now text = Inr d" and "map_of d ''type'' \<noteq> Some (PStr ''unknown'')"
  shows "map_of d ''entities'' = Some (PDict [])"
proof -
  let ?t = "strip (lower text)"
  let ?base = "[(''type'', PStr ''unknown''), (''confidence'', PFloat 0),
                (''entities'', PDict []), (''raw_text'', PStr ?t), (''timestamp'', PStr now)]"
  consider
      (exact) e where "d = dict_set (dict_update ?base e) ''confidence'' (PFloat (weight ''exact_match''))"
                      "check_exact_matches ?t = Some e"
    | (pattern) e where "d = dict_set (dict_update ?base e) ''confidence'' (PFloat (weight ''pattern_match''))"
                      "check_pattern_matches ?t = Inr (Some e)"
    | (keyword) e where "d = dict_set (dict_update ?base e) ''confidence'' (PFloat (weight ''keyword_match''))"
                      "check_keyword_matches ?t = Some e"
    | (fallback) "d = dict_set ?base ''entities'' (PDict (extract_entities ?t))"
    using assms(1) unfolding parse_intent_def Let_def
    by (auto split: option.splits list.splits sum.splits)
  then show ?thesis
  proof cases
    case (exact e)
    then have "(?t, e) \<in> set exact_phrases"
      by (simp add: check_exact_matches_def first_equal_Some)
    then have "map_of e ''entities'' = None" using exact_intents_shape by blast
    then show ?thesis
      by (simp add: exact(1) map_of_dict_set map_of_dict_update_absent)
  next
    case (pattern e)
    from check_pattern_matches_keys(1) [OF pattern(2)] show ?thesis
      by (simp add: pattern(1) map_of_dict_set map_of_dict_update_absent)
  next
    case (keyword e)
    from check_keyword_matches_Some [OF keyword(2)] have "map_of e ''entities'' = None" by auto
    then show ?thesis
      by (simp add: keyword(1) map_of_dict_set map_of_dict_update_absent)
  next
    case fallback
    with assms(2) show ?thesis by simp
  qed
qed


theorem classified_records_have_no_entities_witness:
  "parse_intent ''2024-05-01T10:00:00'' ''Click 500 400'' =
     Inr [(''type'', PStr ''click''), (''confidence'', PFloat (4 / 5)), (''entities'', PDict []),
          (''raw_text'', PStr ''click 500 400''), (''timestamp'', PStr ''2024-05-01T10:00:00''),
          (''match'', PStr ''click 500 400''), (''groups'', PTuple [PStr ''500'', PStr ''400'']),
          (''x'', PInt 500), (''y'', PInt 400)]
   \<and> map_of [(''type'', PStr ''click''), (''confidence'', PFloat (4 / 5)), (''entities'', PDict []),
          (''raw_text'', PStr ''click 500 400''), (''timestamp'', PStr ''2024-05-01T10:00:00''),
          (''match'', PStr ''click 500 400''), (''groups'', PTuple [PStr ''500'', PStr ''400'']),
          (''x'', PInt 500), (''y'', PInt 400)] ''type'' \<noteq> Some (PStr ''unknown'')
   \<and> map_of [(''type'', PStr ''click''), (''confidence'', PFloat (4 / 5)), (''entities'', PDict []),
          (''raw_text'', PStr ''click 500 400''), (''timestamp'', PStr ''2024-05-01T10:00:00''),
          (''match'', PStr ''click 500 400''), (''groups'', PTuple [PStr ''500'', PStr ''400'']),
          (''x'', PInt 500), (''y'', PInt 400)] ''entities'' = Some (PDict [])"
proof -
  let ?d = "[(''type'', PStr ''click''), (''confidence'', PFloat (4 / 5)), (''entities'', PDict []),
          (''raw_text'', PStr ''click 500 400''), (''timestamp'', PStr ''2024-05-01T10:00:00''),
          (''match'', PStr ''click 500 400''), (''groups'', PTuple [PStr ''500'', PStr ''400'']),
          (''x'', PInt 500), (''y'', PInt 400)]"
  have p: "parse_intent ''2024-05-01T10:00:00'' ''Click 500 400'' = Inr ?d"
    by code_simp
  have t: "map_of ?d ''type'' \<noteq> Some (PStr ''unknown'')"
    by simp
  from p t classified_records_have_no_entities [OF p t] show ?thesis
    by blast
qed

subsection \<open>The fallback\<close>






section \<open>Properties of the intent validator\<close>

text \<open>
  Claim C5. For a record of kind \<^verbatim>\<open>click\<close> whose coordinate slots, where present, hold
  integers, \<^verbatim>\<open>validate_intent\<close> returns a result and leaves the record as it was. The result
  is invalid exactly when the \<^verbatim>\<open>x\<close> or the \<^verbatim>\<open>y\<close> slot is absent. When both are present the
  result is valid, and its warnings are the single bounds warning when the point lies
  outside \<open>0 \<le> x \<le> 3000\<close>, \<open>0 \<le> y \<le> 2000\<close>, and empty inside.
\<close>

theorem click_validation:
  assumes ty: "map_of intent ''type'' = Some (PStr ''click'')"
    and tx: "\<And>v. map_of intent ''x'' = Some v \<Longrightarrow> \<exists>n. v = PInt n"
    and ty': "\<And>v. map_of intent ''y'' = Some v \<Longrightarrow> \<exists>n. v = PInt n"
  shows "\<exists>r. validate_intent intent = (intent, Inr r)
           \<and> (is_valid r \<longleftrightarrow> map_of intent ''x'' \<noteq> None \<and> map_of intent ''y'' \<noteq> None)
           \<and> (\<forall>x y. map_of intent ''x'' = Some (PInt x) \<and> map_of intent ''y'' = Some (PInt y)
                  \<longrightarrow> is_valid r
                      \<and> warnings r = (if 0 \<le> x \<and> x \<le> 3000 \<and> 0 \<le> y \<and> y \<le> 2000 then []
                                       else [''Coordinates may be outside screen bounds'']))"
proof -
  have sg: "get_suggested_actions (PStr ''click'')
              = Inr [''Validate coordinates'', ''Execute click action'', ''Provide feedback'']"
    by (simp add: get_suggested_actions_def suggestions_tbl_def)
  have t: "py_get intent ''type'' = PStr ''click''"
    using ty by (simp add: py_get_def)
  note defs = validate_intent_def validate_result_def validate_click_def t sg Let_def between_def
  show ?thesis
  proof (cases "map_of intent ''x''")
    case None
    then have "py_get intent ''x'' = PNone" by (simp add: py_get_def)
    with None show ?thesis by (simp add: defs)
  next
    case (Some vx)
    then obtain x where x: "map_of intent ''x'' = Some (PInt x)" using tx by blast
    then have px: "py_get intent ''x'' = PInt x" by (simp add: py_get_def)
    show ?thesis
    proof (cases "map_of intent ''y''")
      case None
      then have "py_get intent ''y'' = PNone" by (simp add: py_get_def)
      with None show ?thesis by (simp add: defs)
    next
      case (Some vy)
      then obtain y where y: "map_of intent ''y'' = Some (PInt y)" using ty' by blast
      then have py: "py_get intent ''y'' = PInt y" by (simp add: py_get_def)
      have vc: "validate_click intent =
                  Inr (True, if 0 \<le> x \<and> x \<le> 3000 \<and> 0 \<le> y \<and> y \<le> 2000 then []
                             else [''Coordinates may be outside screen bounds''])"
        by (simp add: validate_click_def px py between_def Let_def split: bool.splits)
      from x y show ?thesis
        by (simp add: validate_intent_def validate_result_def t sg vc Let_def)
    qed
  qed
qed

theorem click_validation_witness:
  "map_of [(''type'', PStr ''click''), (''x'', PInt 5000), (''y'', PInt 100)] ''type'' = Some (PStr ''click'')
   \<and> validate_intent [(''type'', PStr ''click''), (''x'', PInt 5000), (''y'', PInt 100)]
       = ([(''type'', PStr ''click''), (''x'', PInt 5000), (''y'', PInt 100)],
          Inr \<lparr>is_valid = True, warnings = [''Coordinates may be outside screen bounds''],
               suggestions = [''Validate coordinates'', ''Execute click action'', ''Provide feedback'']\<rparr>)"
proof -
  let ?i = "[(''type'', PStr ''click''), (''x'', PInt 5000), (''y'', PInt 100)]"
  have a: "map_of ?i ''type'' = Some (PStr ''click'')" by simp
  have b: "\<And>v. map_of ?i ''x'' = Some v \<Longrightarrow> \<exists>n. v = PInt n" by simp
  have c: "\<And>v. map_of ?i ''y'' = Some v \<Longrightarrow> \<exists>n. v = PInt n" by simp
  from click_validation [OF a b c] obtain r where
    r: "validate_intent ?i = (?i, Inr r)" "is_valid r"
       "warnings r = [''Coordinates may be outside screen bounds'']"
    by auto
  have s: "suggestions r = [''Validate coordinates'', ''Execute click action'', ''Provide feedback'']"
    using r(1) by (auto simp add: validate_intent_def validate_result_def validate_click_def py_get_def
        get_suggested_actions_def suggestions_tbl_def between_def Let_def)
  from r s a show ?thesis by (cases r) simp
qed

section \<open>Properties of the memory store\<close>

subsection \<open>The conversation buffer\<close>

lemma length_slice_from_neg:
  "0 < n \<Longrightarrow> length (slice_from (- n) xs) = min (length xs) (nat n)"
  by (auto simp: slice_from_def)

lemma slice_from_zero: "slice_from 0 xs = xs"
  by (simp add: slice_from_def)

lemma add_to_buffer_last_entries:
  "1 \<le> max_buffer_size self \<Longrightarrow>
     conversation_buffer (add_to_buffer e self content metadata) =
       (let buffer = conversation_buffer self
                       @ [\<lparr>b_content = content, b_metadata = metadata, b_timestamp = buf_time e\<rparr>]
        in drop (length buffer - nat (max_buffer_size self)) buffer)"
  by (auto simp: add_to_buffer_def Let_def slice_from_def)

lemma add_to_buffer_bound:
  "1 \<le> max_buffer_size self \<Longrightarrow>
     int (length (conversation_buffer (add_to_buffer e self content metadata))) \<le> max_buffer_size self"
  by (auto simp: add_to_buffer_def Let_def slice_from_def)

lemma add_to_buffer_capacity [simp]:
  "max_buffer_size (add_to_buffer e self content metadata) = max_buffer_size self"
  by (simp add: add_to_buffer_def Let_def)

lemma add_memory_capacity [simp]:
  "max_buffer_size (snd (add_memory B e self content category metadata embedding)) = max_buffer_size self"
  by (simp add: add_memory_def Let_def split: option.splits sum.splits)

lemma add_memory_bound:
  assumes "1 \<le> max_buffer_size self"
    and "int (length (conversation_buffer self)) \<le> max_buffer_size self"
  shows "int (length (conversation_buffer (snd (add_memory B e self content category metadata embedding))))
           \<le> max_buffer_size self"
proof (cases "collection self")
  case None
  with assms show ?thesis by (simp add: add_memory_def)
next
  case (Some c)
  show ?thesis
  proof (cases "coll_add B c content
      (case metadata of None \<Rightarrow> [(''category'', PStr category), (''timestamp'', PStr (now_iso e)),
                       (''content_length'', PInt (int (length content)))]
        | Some md \<Rightarrow> dict_update [(''category'', PStr category), (''timestamp'', PStr (now_iso e)),
                       (''content_length'', PInt (int (length content)))] md)
      (generate_id e content category)
      (case embedding of None \<Rightarrow> None | Some v \<Rightarrow> if v = [] then None else Some v)")
    case (Inl err)
    with Some assms show ?thesis by (simp add: add_memory_def Let_def)
  next
    case (Inr c')
    have "1 \<le> max_buffer_size (self\<lparr>collection := Some c'\<rparr>)" using assms(1) by simp
    from add_to_buffer_bound [OF this] Some Inr assms show ?thesis
      by (simp add: add_memory_def Let_def)
  qed
qed

lemma add_conversation_bound:
  assumes "1 \<le> max_buffer_size self"
    and "int (length (conversation_buffer self)) \<le> max_buffer_size self"
  shows "int (length (conversation_buffer (add_conversation B e1 e2 self user_input assistant_response)))
           \<le> max_buffer_size self"
proof -
  let ?s1 = "snd (add_memory B e1 self (''User: '' @ user_input) ''conversation''
                    (Some [(''speaker'', PStr ''user''), (''turn'', PStr ''input'')]) None)"
  have a: "int (length (conversation_buffer ?s1)) \<le> max_buffer_size ?s1"
    using add_memory_bound [OF assms] by simp
  have b: "1 \<le> max_buffer_size ?s1" using assms(1) by simp
  from add_memory_bound [OF b a] show ?thesis
    by (simp add: add_conversation_def Let_def)
qed

lemma add_to_buffer_capacity_zero:
  "max_buffer_size self = 0 \<Longrightarrow>
     conversation_buffer (add_to_buffer e self content metadata) =
       conversation_buffer self
         @ [\<lparr>b_content = content, b_metadata = metadata, b_timestamp = buf_time e\<rparr>]"
  by (simp add: add_to_buffer_def Let_def slice_from_def)

text \<open>
  Claim C6, at capacity 0. The claim is that the buffer never holds more entries than
  \<^verbatim>\<open>max_buffer_size\<close>. With \<^verbatim>\<open>max_buffer_size = 0\<close> the trimming slice is
  \<^verbatim>\<open>conversation_buffer[-0:]\<close>, which is the whole list: after one conversation turn on an
  empty buffer the buffer holds both entries, oldest first, and nothing is ever dropped.
\<close>

theorem buffer_exceeds_capacity_zero:
  "max_buffer_size
     (add_conversation list_backend test_env test_env
        \<lparr>collection = Some [], conversation_buffer = [], max_buffer_size = 0\<rparr> ''hi'' ''hello'') = 0
   \<and> map b_content (conversation_buffer
     (add_conversation list_backend test_env test_env
        \<lparr>collection = Some [], conversation_buffer = [], max_buffer_size = 0\<rparr> ''hi'' ''hello''))
     = [''User: hi'', ''Assistant: hello'']"
  by (simp add: add_conversation_def add_memory_def add_to_buffer_def list_backend_def Let_def
        slice_from_def)

subsection \<open>Degradation\<close>



end
